theory Spec2Isabelle
  imports Main
begin

section \<open>Errors\<close>

text \<open>
  Go's \<^verbatim>\<open>error\<close> values, as far as the two functions below tell them apart: a miss
  reported by a client, a conflict or a validation rejection reported by the Kubernetes
  API, any other failure (with its message), and the two classified kinds that the backup
  package builds with \<^verbatim>\<open>newTemporaryError\<close> and \<^verbatim>\<open>newFatalErrorf\<close>.
  A nil error is the absence of a value: \<open>error option\<close>, or the \<open>Inr\<close> side of a sum.
\<close>

datatype error =
    NotFoundError string
  | ConflictError string
  | InvalidError string
  | OtherError string
  | TemporaryError error
  | FatalError string

text \<open>
  Modelled from the spec: \<^verbatim>\<open>driver.IsNotFound\<close> and \<^verbatim>\<open>k8sutil.IsNotFound\<close> are not
  under src/. The spec (section 6) gives each client's lookup the outcomes
  \<^verbatim>\<open>NotFoundError\<close> and, for anything else, \<^verbatim>\<open>Error\<close>; both predicates recognise
  exactly the former.
\<close>

fun driver_IsNotFound :: "error \<Rightarrow> bool" where
  "driver_IsNotFound (NotFoundError _) = True"
| "driver_IsNotFound _ = False"

fun k8sutil_IsNotFound :: "error \<Rightarrow> bool" where
  "k8sutil_IsNotFound (NotFoundError _) = True"
| "k8sutil_IsNotFound _ = False"

text \<open>
  Modelled from the spec: \<^verbatim>\<open>newTemporaryError\<close> and \<^verbatim>\<open>newFatalErrorf\<close> are not under
  src/. The spec (section 4.3) has two kinds of classified error, \<^verbatim>\<open>Temporary\<close>
  (retryable) wrapping a failure and \<^verbatim>\<open>Fatal\<close> (not retryable) carrying a message.
\<close>

definition newTemporaryError :: "error \<Rightarrow> error" where
  "newTemporaryError err = TemporaryError err"

definition newFatalErrorf :: "string \<Rightarrow> error" where
  "newFatalErrorf msg = FatalError msg"

fun isTemporary :: "error \<Rightarrow> bool" where
  "isTemporary (TemporaryError _) = True"
| "isTemporary _ = False"

fun isFatal :: "error \<Rightarrow> bool" where
  "isFatal (FatalError _) = True"
| "isFatal _ = False"


section \<open>Package backup: the handler of state Unavailable\<close>

subsection \<open>Data\<close>

text \<open>
  \<^verbatim>\<open>driver.BackupMeta\<close>, with the fields the handler reads. Its declaration belongs
  to the database driver; the two counters are integers, which the handler only
  compares with each other.
\<close>

record BackupMeta =
  ID :: string
  Available :: bool
  NumberOfDBServers :: int
  NumberOfPiecesPresent :: int

datatype ArangoBackupState =
    ArangoBackupStateNew
  | ArangoBackupStatePending
  | ArangoBackupStateUnavailable
  | ArangoBackupStateReady
  | ArangoBackupStateDeleted
  | ArangoBackupStateFailed

text \<open>
  Modelled from the spec: the declaration of \<^verbatim>\<open>ArangoBackupStatus\<close> is not under src/.
  The spec (section 3) gives the persisted record a state, the flag \<^verbatim>\<open>available\<close> and
  the last known \<^verbatim>\<open>backupMeta\<close> snapshot; the source reads the identifier of the backup
  from \<^verbatim>\<open>backup.Status.Backup.ID\<close>, and \<^verbatim>\<open>backup.Status.Backup\<close> may be nil.
\<close>

record ArangoBackupStatus =
  Status_State :: ArangoBackupState
  Status_Available :: bool
  Status_Backup :: "BackupMeta option"

record ArangoBackup =
  BackupName :: string
  Status :: ArangoBackupStatus

type_synonym ArangoDeployment = string

text \<open>The backup client of a deployment: one lookup, by backup identifier.\<close>

record ArangoClient =
  ArangoClient_Get :: "string \<Rightarrow> error + BackupMeta"

text \<open>
  The handler's collaborators, \<^verbatim>\<open>h.getArangoDeploymentObject\<close> and
  \<^verbatim>\<open>h.arangoClientFactory\<close>, are fields of \<^verbatim>\<open>h\<close>; each returns a value or an error.
\<close>

record handler =
  getArangoDeploymentObject :: "ArangoBackup \<Rightarrow> error + ArangoDeployment"
  arangoClientFactory :: "ArangoDeployment \<Rightarrow> ArangoBackup \<Rightarrow> error + ArangoClient"

subsection \<open>Status updates\<close>

text \<open>
  Modelled from the spec: \<^verbatim>\<open>updateStatusState\<close>, \<^verbatim>\<open>updateStatusAvailable\<close>,
  \<^verbatim>\<open>updateStatusBackup\<close> and \<^verbatim>\<open>wrapUpdateStatus\<close> are not under src/. The spec
  (section 4.4) makes a status update an ordered list of independent field mutations
  (state, availability flag, metadata snapshot), applied together to the persisted
  status, the last write winning on a field written twice. The second argument of
  \<^verbatim>\<open>updateStatusState\<close> is a message template, the empty string at every call of this
  handler; the spec's record has no message field, so it is taken and not stored.
\<close>

type_synonym updateStatusFunc = "ArangoBackupStatus \<Rightarrow> ArangoBackupStatus"

definition updateStatusState :: "ArangoBackupState \<Rightarrow> string \<Rightarrow> updateStatusFunc" where
  "updateStatusState state template status = status\<lparr>Status_State := state\<rparr>"

definition updateStatusAvailable :: "bool \<Rightarrow> updateStatusFunc" where
  "updateStatusAvailable available status = status\<lparr>Status_Available := available\<rparr>"

definition updateStatusBackup :: "BackupMeta \<Rightarrow> updateStatusFunc" where
  "updateStatusBackup backupMeta status = status\<lparr>Status_Backup := Some backupMeta\<rparr>"

definition wrapUpdateStatus ::
  "ArangoBackup \<Rightarrow> updateStatusFunc list \<Rightarrow> error + ArangoBackupStatus" where
  "wrapUpdateStatus backup update = Inr (fold (\<lambda>u s. u s) update (Status backup))"

subsection \<open>stateUnavailableHandler\<close>

text \<open>
  The handler returns a status to persist (\<open>Inr\<close>) or an error (\<open>Inl\<close>). The error of
  \<^verbatim>\<open>getArangoDeploymentObject\<close> is returned as it is; the one of the client factory is
  wrapped as temporary; a missing \<^verbatim>\<open>.status.backup\<close> is fatal. These three checks run in
  this order, before the lookup.
\<close>

definition stateUnavailableHandler ::
  "handler \<Rightarrow> ArangoBackup \<Rightarrow> error + ArangoBackupStatus" where
  "stateUnavailableHandler h backup =
     (case getArangoDeploymentObject h backup of
        Inl err \<Rightarrow> Inl err
      | Inr deployment \<Rightarrow>
          (case arangoClientFactory h deployment backup of
             Inl err \<Rightarrow> Inl (newTemporaryError err)
           | Inr client \<Rightarrow>
               (case Status_Backup (Status backup) of
                  None \<Rightarrow> Inl (newFatalErrorf ''missing field .status.backup'')
                | Some statusBackup \<Rightarrow>
                    (case ArangoClient_Get client (ID statusBackup) of
                       Inl err \<Rightarrow>
                         if driver_IsNotFound err then
                           wrapUpdateStatus backup
                             [updateStatusState ArangoBackupStateDeleted '''',
                              updateStatusAvailable False]
                         else
                           wrapUpdateStatus backup
                             [updateStatusAvailable False]
                     | Inr backupMeta \<Rightarrow>
                         if \<not> Available backupMeta
                            \<or> NumberOfDBServers backupMeta \<noteq> NumberOfPiecesPresent backupMeta
                         then
                           wrapUpdateStatus backup
                             [updateStatusState ArangoBackupStateUnavailable '''',
                              updateStatusBackup backupMeta,
                              updateStatusAvailable False]
                         else
                           wrapUpdateStatus backup
                             [updateStatusBackup backupMeta,
                              updateStatusState ArangoBackupStateReady '''',
                              updateStatusAvailable True]))))"


section \<open>Package resources: the ServiceMonitor of a deployment\<close>

subsection \<open>Data\<close>

text \<open>The objects of the Prometheus operator's API, with the fields the source fills in.\<close>

record TLSConfig =
  CAFile :: string
  InsecureSkipVerify :: bool

record Endpoint =
  Port :: string
  Interval :: string
  Scheme :: string
  TLSConfig :: "TLSConfig option"

type_synonym OwnerReference = string

record ObjectMeta =
  Name :: string
  Labels :: "string \<rightharpoonup> string"
  OwnerReferences :: "OwnerReference list"

record LabelSelector =
  MatchLabels :: "string \<rightharpoonup> string"

record ServiceMonitorSpec =
  JobLabel :: string
  Endpoints :: "Endpoint list"
  Selector :: LabelSelector

record ServiceMonitor =
  ObjectMeta :: ObjectMeta
  Spec :: ServiceMonitorSpec

text \<open>
  The client for ServiceMonitors. \<^verbatim>\<open>mClient.ServiceMonitors(ns)\<close> selects the namespace;
  each of the three calls takes it first here. What the cluster answers is outside the
  program: the client is a record of answers, and the calls an invocation makes are
  recorded in the order they are made.
\<close>

record MonitoringV1Client =
  ServiceMonitors_Get :: "string \<Rightarrow> string \<Rightarrow> error + ServiceMonitor"
  ServiceMonitors_Create :: "string \<Rightarrow> ServiceMonitor \<Rightarrow> error + ServiceMonitor"
  ServiceMonitors_Delete :: "string \<Rightarrow> string \<Rightarrow> error option"

datatype call =
    GetCall string string
  | CreateCall string ServiceMonitor
  | DeleteCall string string

fun isMutating :: "call \<Rightarrow> bool" where
  "isMutating (GetCall _ _) = False"
| "isMutating (CreateCall _ _) = True"
| "isMutating (DeleteCall _ _) = True"

fun isCreate :: "call \<Rightarrow> bool" where
  "isCreate (CreateCall _ _) = True"
| "isCreate _ = False"

fun isDelete :: "call \<Rightarrow> bool" where
  "isDelete (DeleteCall _ _) = True"
| "isDelete _ = False"

text \<open>
  What \<^verbatim>\<open>r.context\<close> answers: the deployment's API object (name, namespace, owner
  reference), the namespace, and of the deployment's spec the three values the source
  asks for, \<^verbatim>\<open>spec.Metrics.IsEnabled()\<close>, \<^verbatim>\<open>spec.IsSecure()\<close> and
  \<^verbatim>\<open>spec.TLS.GetCASecretName()\<close>.
\<close>

record APIObject =
  GetName :: string
  GetNamespace :: string
  AsOwner :: OwnerReference

record DeploymentSpec =
  Metrics_IsEnabled :: bool
  IsSecure :: bool
  TLS_GetCASecretName :: string

record Context =
  GetAPIObject :: APIObject
  Context_GetNamespace :: string
  GetSpec :: DeploymentSpec

record Resources =
  monitoringClient :: "MonitoringV1Client option"
  "context" :: Context

type_synonym RestConfig = string

text \<open>
  The parts of this repository and of its libraries that the source calls and that are
  not under src/, taken as parameters: the label keys, the application name and the
  name of the exporter's service from \<^verbatim>\<open>k8sutil\<close>; \<^verbatim>\<open>k8sutil.InClusterConfig\<close> and
  \<^verbatim>\<open>clientv1.NewForConfig\<close>, which build the client; \<^verbatim>\<open>k8sutil.GetCASecret\<close>, by
  namespace and secret name, of whose results the source keeps the certificate and the
  error; and \<^verbatim>\<open>maskAny\<close>, which every error this package returns goes through.
\<close>

record env =
  LabelKeyArangoDeployment :: string
  LabelKeyApp :: string
  AppName :: string
  CreateExporterClientServiceName :: "string \<Rightarrow> string"
  InClusterConfig :: "error + RestConfig"
  NewForConfig :: "RestConfig \<Rightarrow> error + MonitoringV1Client"
  GetCASecret :: "string \<Rightarrow> string \<Rightarrow> error + string"
  maskAny :: "error \<Rightarrow> error"

subsection \<open>The kind of an error that maskAny returns\<close>

text \<open>
  Modelled from the spec: \<^verbatim>\<open>maskAny\<close> is not under src/. The spec (sections 4.1 and
  4.3) gives every failure that the reconciler surfaces exactly one of two kinds: a
  validation or conflict failure reported by the client surfaces as Fatal, every other
  failure as Temporary. The source passes the errors of Create and of Delete (and of
  Get and of the client's construction) to the one function \<^verbatim>\<open>maskAny\<close>, so one rule
  classifies them all.
\<close>

fun isValidationOrConflict :: "error \<Rightarrow> bool" where
  "isValidationOrConflict (ConflictError _) = True"
| "isValidationOrConflict (InvalidError _) = True"
| "isValidationOrConflict _ = False"

fun maskAny_spec :: "error \<Rightarrow> error" where
  "maskAny_spec (ConflictError msg) = FatalError msg"
| "maskAny_spec (InvalidError msg) = FatalError msg"
| "maskAny_spec err = TemporaryError err"

subsection \<open>Labels\<close>

definition LabelsForExporterServiceMonitor :: "env \<Rightarrow> string \<Rightarrow> (string \<rightharpoonup> string)" where
  "LabelsForExporterServiceMonitor e deploymentName =
     [LabelKeyArangoDeployment e \<mapsto> deploymentName,
      LabelKeyApp e \<mapsto> AppName e,
      ''context'' \<mapsto> ''metrics'']"

definition LabelsForExporterServiceMonitorSelector ::
  "env \<Rightarrow> string \<Rightarrow> (string \<rightharpoonup> string)" where
  "LabelsForExporterServiceMonitorSelector e deploymentName =
     [LabelKeyArangoDeployment e \<mapsto> deploymentName,
      LabelKeyApp e \<mapsto> AppName e]"

subsection \<open>EnsureMonitoringClient\<close>

text \<open>
  Returns the cached client when there is one; otherwise builds one and stores it in
  the Resources. The Resources are returned with the result.
\<close>

definition EnsureMonitoringClient ::
  "env \<Rightarrow> Resources \<Rightarrow> (error + MonitoringV1Client) \<times> Resources" where
  "EnsureMonitoringClient e r =
     (case monitoringClient r of
        Some c \<Rightarrow> (Inr c, r)
      | None \<Rightarrow>
          (case InClusterConfig e of
             Inl err \<Rightarrow> (Inl (maskAny e err), r)
           | Inr restConfig \<Rightarrow>
               (case NewForConfig e restConfig of
                  Inl err \<Rightarrow> (Inl (maskAny e err), r)
                | Inr mClient \<Rightarrow> (Inr mClient, r\<lparr>monitoringClient := Some mClient\<rparr>))))"

subsection \<open>makeEndpoint\<close>

text \<open>
  In the branch where the certificate cannot be read, the Go literal leaves
  \<^verbatim>\<open>CAFile\<close> at its zero value, the empty string. With no TLS the pointer
  \<^verbatim>\<open>TLSConfig\<close> stays nil.
\<close>

definition makeEndpoint :: "env \<Rightarrow> Resources \<Rightarrow> bool \<Rightarrow> Endpoint" where
  "makeEndpoint e r isSecure =
     (if isSecure then
        (let ns = Context_GetNamespace (context r);
             spec = GetSpec (context r);
             secretName = TLS_GetCASecretName spec;
             tlsconfig =
               (case GetCASecret e ns secretName of
                  Inr cert \<Rightarrow> \<lparr>CAFile = cert, InsecureSkipVerify = False\<rparr>
                | Inl err \<Rightarrow> \<lparr>CAFile = '''', InsecureSkipVerify = True\<rparr>)
         in \<lparr>Port = ''exporter'', Interval = ''10s'', Scheme = ''https'',
             TLSConfig = Some tlsconfig\<rparr>)
      else
        \<lparr>Port = ''exporter'', Interval = ''10s'', Scheme = ''http'', TLSConfig = None\<rparr>)"

subsection \<open>EnsureServiceMonitor\<close>

definition newServiceMonitor :: "env \<Rightarrow> Resources \<Rightarrow> ServiceMonitor" where
  "newServiceMonitor e r =
     (let apiObject = GetAPIObject (context r);
          deploymentName = GetName apiObject;
          owner = AsOwner apiObject;
          spec = GetSpec (context r);
          serviceMonitorName = CreateExporterClientServiceName e deploymentName
      in \<lparr>ObjectMeta =
            \<lparr>Name = serviceMonitorName,
             Labels = LabelsForExporterServiceMonitor e deploymentName,
             OwnerReferences = [owner]\<rparr>,
          Spec =
            \<lparr>JobLabel = ''k8s-app'',
             Endpoints = [makeEndpoint e r (IsSecure spec)],
             Selector =
               \<lparr>MatchLabels = LabelsForExporterServiceMonitorSelector e deploymentName\<rparr>\<rparr>\<rparr>)"

text \<open>
  The result is the error returned (\<open>None\<close> for nil), the Resources (the client may have
  been cached) and the calls made on the ServiceMonitor client, in order. Log lines are
  left out.
\<close>

definition EnsureServiceMonitor ::
  "env \<Rightarrow> Resources \<Rightarrow> error option \<times> Resources \<times> call list" where
  "EnsureServiceMonitor e r =
     (let apiObject = GetAPIObject (context r);
          deploymentName = GetName apiObject;
          ns = GetNamespace apiObject;
          spec = GetSpec (context r);
          wantMetrics = Metrics_IsEnabled spec;
          serviceMonitorName = CreateExporterClientServiceName e deploymentName
      in case EnsureMonitoringClient e r of
           (Inl err, r') \<Rightarrow> (Some (maskAny e err), r', [])
         | (Inr mClient, r') \<Rightarrow>
             (case ServiceMonitors_Get mClient ns serviceMonitorName of
                Inl err \<Rightarrow>
                  if k8sutil_IsNotFound err then
                    if \<not> wantMetrics then
                      (None, r', [GetCall ns serviceMonitorName])
                    else
                      (let smon = newServiceMonitor e r'
                       in case ServiceMonitors_Create mClient ns smon of
                            Inl err \<Rightarrow>
                              (Some (maskAny e err), r',
                               [GetCall ns serviceMonitorName, CreateCall ns smon])
                          | Inr created \<Rightarrow>
                              (None, r',
                               [GetCall ns serviceMonitorName, CreateCall ns smon]))
                  else
                    (Some (maskAny e err), r', [GetCall ns serviceMonitorName])
              | Inr found \<Rightarrow>
                  if wantMetrics then
                    (None, r', [GetCall ns serviceMonitorName])
                  else
                    (case ServiceMonitors_Delete mClient ns serviceMonitorName of
                       None \<Rightarrow>
                         (None, r',
                          [GetCall ns serviceMonitorName, DeleteCall ns serviceMonitorName])
                     | Some err \<Rightarrow>
                         (Some (maskAny e err), r',
                          [GetCall ns serviceMonitorName, DeleteCall ns serviceMonitorName]))))"


section \<open>Concrete inputs\<close>

text \<open>
  A backup client that knows one backup, \<open>backup-1\<close>, and answers \<open>answer\<close> for it; a
  handler whose deployment and client are always obtained; a record in state
  Unavailable that has \<open>backup-1\<close> stored and is, so far, marked available.
\<close>

definition example_client :: "(error + BackupMeta) \<Rightarrow> ArangoClient" where
  "example_client answer =
     \<lparr>ArangoClient_Get = (\<lambda>id. if id = ''backup-1'' then answer else Inl (NotFoundError id))\<rparr>"

definition example_handler :: "(error + BackupMeta) \<Rightarrow> handler" where
  "example_handler answer =
     \<lparr>getArangoDeploymentObject = (\<lambda>backup. Inr ''deployment''),
      arangoClientFactory = (\<lambda>deployment backup. Inr (example_client answer))\<rparr>"

definition example_meta :: "bool \<Rightarrow> int \<Rightarrow> int \<Rightarrow> BackupMeta" where
  "example_meta a n p =
     \<lparr>ID = ''backup-1'', Available = a, NumberOfDBServers = n, NumberOfPiecesPresent = p\<rparr>"

definition example_backup :: ArangoBackup where
  "example_backup =
     \<lparr>BackupName = ''nightly'',
      Status = \<lparr>Status_State = ArangoBackupStateUnavailable, Status_Available = True,
                Status_Backup = Some (example_meta True 3 1)\<rparr>\<rparr>"

text \<open>A record with no \<^verbatim>\<open>.status.backup\<close>, and a handler whose client factory fails.\<close>

definition example_backup_noid :: ArangoBackup where
  "example_backup_noid =
     \<lparr>BackupName = ''nightly'',
      Status = \<lparr>Status_State = ArangoBackupStateUnavailable, Status_Available = False,
                Status_Backup = None\<rparr>\<rparr>"

definition example_handler_noclient :: handler where
  "example_handler_noclient =
     \<lparr>getArangoDeploymentObject = (\<lambda>backup. Inr ''deployment''),
      arangoClientFactory = (\<lambda>deployment backup. Inl (OtherError ''connection refused''))\<rparr>"

text \<open>A handler that cannot resolve the deployment of the backup.\<close>

definition example_handler_nodeployment :: handler where
  "example_handler_nodeployment =
     \<lparr>getArangoDeploymentObject = (\<lambda>backup. Inl (NotFoundError ''deployment'')),
      arangoClientFactory = (\<lambda>deployment backup. Inr (example_client (Inr (example_meta True 3 3))))\<rparr>"

text \<open>
  A ServiceMonitor client with fixed answers: what Get returns, the error of Create (if
  any; a successful Create returns the object it was given) and the error of Delete (if
  any). An environment that builds this client, answers \<open>cert\<close> to the lookup of the CA
  secret, and whose \<^verbatim>\<open>maskAny\<close> hands the error on as it is. Resources of a deployment
  \<open>db\<close> in namespace \<open>default\<close>, with no client cached yet.
\<close>

definition example_monitor :: ServiceMonitor where
  "example_monitor =
     \<lparr>ObjectMeta = \<lparr>Name = ''db-exporter'', Labels = Map.empty, OwnerReferences = []\<rparr>,
      Spec = \<lparr>JobLabel = ''k8s-app'', Endpoints = [],
              Selector = \<lparr>MatchLabels = Map.empty\<rparr>\<rparr>\<rparr>"

definition example_monitoring_client ::
  "(error + ServiceMonitor) \<Rightarrow> error option \<Rightarrow> error option \<Rightarrow> MonitoringV1Client" where
  "example_monitoring_client got createErr deleteErr =
     \<lparr>ServiceMonitors_Get = (\<lambda>ns name. got),
      ServiceMonitors_Create =
        (\<lambda>ns smon. case createErr of None \<Rightarrow> Inr smon | Some err \<Rightarrow> Inl err),
      ServiceMonitors_Delete = (\<lambda>ns name. deleteErr)\<rparr>"

definition example_env :: "MonitoringV1Client \<Rightarrow> (error + string) \<Rightarrow> env" where
  "example_env mClient cert =
     \<lparr>LabelKeyArangoDeployment = ''arango_deployment'',
      LabelKeyApp = ''app'',
      AppName = ''arangodb'',
      CreateExporterClientServiceName = (\<lambda>deploymentName. deploymentName @ ''-exporter''),
      InClusterConfig = Inr ''in-cluster'',
      NewForConfig = (\<lambda>restConfig. Inr mClient),
      GetCASecret = (\<lambda>ns secretName. cert),
      maskAny = (\<lambda>err. err)\<rparr>"

definition example_resources :: "bool \<Rightarrow> bool \<Rightarrow> Resources" where
  "example_resources wantMetrics secure =
     \<lparr>monitoringClient = None,
      context =
        \<lparr>GetAPIObject = \<lparr>GetName = ''db'', GetNamespace = ''default'', AsOwner = ''db''\<rparr>,
         Context_GetNamespace = ''default'',
         GetSpec = \<lparr>Metrics_IsEnabled = wantMetrics, IsSecure = secure,
                    TLS_GetCASecretName = ''db-ca''\<rparr>\<rparr>\<rparr>"

text \<open>The same environment with the classifying \<^verbatim>\<open>maskAny\<close> of the spec.\<close>

definition example_env_spec :: "MonitoringV1Client \<Rightarrow> (error + string) \<Rightarrow> env" where
  "example_env_spec mClient cert = (example_env mClient cert)\<lparr>maskAny := maskAny_spec\<rparr>"


section \<open>The handler of state Unavailable: properties\<close>

text \<open>
  Claim C1. When the deployment and the client are obtained, the record has a backup
  stored and the lookup of that backup succeeds with \<open>backupMeta\<close>, the handler returns
  the record's status with three fields written: the state is Ready and the flag
  available is true when \<open>backupMeta\<close> is available and its two counters are equal, and
  the state is Unavailable and the flag is false when \<open>backupMeta\<close> is not available or
  the counters differ; in both cases \<open>backupMeta\<close> is stored as the snapshot.
\<close>

theorem stateUnavailableHandler_lookup_ok:
  assumes "getArangoDeploymentObject h backup = Inr deployment"
      and "arangoClientFactory h deployment backup = Inr client"
      and "Status_Backup (Status backup) = Some statusBackup"
      and "ArangoClient_Get client (ID statusBackup) = Inr backupMeta"
  shows "stateUnavailableHandler h backup =
           Inr ((Status backup)
                 \<lparr>Status_State :=
                    (if Available backupMeta
                        \<and> NumberOfDBServers backupMeta = NumberOfPiecesPresent backupMeta
                     then ArangoBackupStateReady else ArangoBackupStateUnavailable),
                  Status_Available :=
                    (Available backupMeta
                     \<and> NumberOfDBServers backupMeta = NumberOfPiecesPresent backupMeta),
                  Status_Backup := Some backupMeta\<rparr>)"
  using assms
  by (simp add: stateUnavailableHandler_def wrapUpdateStatus_def updateStatusState_def
      updateStatusAvailable_def updateStatusBackup_def)

text \<open>
  The three rows of a successful lookup: three of three pieces, available; two of three
  pieces; all pieces but not available.
\<close>

theorem stateUnavailableHandler_lookup_ok_witness:
  "stateUnavailableHandler (example_handler (Inr (example_meta True 3 3))) example_backup =
     Inr \<lparr>Status_State = ArangoBackupStateReady, Status_Available = True,
          Status_Backup = Some (example_meta True 3 3)\<rparr>
   \<and> stateUnavailableHandler (example_handler (Inr (example_meta True 3 2))) example_backup =
     Inr \<lparr>Status_State = ArangoBackupStateUnavailable, Status_Available = False,
          Status_Backup = Some (example_meta True 3 2)\<rparr>
   \<and> stateUnavailableHandler (example_handler (Inr (example_meta False 3 3))) example_backup =
     Inr \<lparr>Status_State = ArangoBackupStateUnavailable, Status_Available = False,
          Status_Backup = Some (example_meta False 3 3)\<rparr>"
  using
    stateUnavailableHandler_lookup_ok
      [of "example_handler (Inr (example_meta True 3 3))" example_backup "''deployment''"
        "example_client (Inr (example_meta True 3 3))" "example_meta True 3 1"
        "example_meta True 3 3"]
    stateUnavailableHandler_lookup_ok
      [of "example_handler (Inr (example_meta True 3 2))" example_backup "''deployment''"
        "example_client (Inr (example_meta True 3 2))" "example_meta True 3 1"
        "example_meta True 3 2"]
    stateUnavailableHandler_lookup_ok
      [of "example_handler (Inr (example_meta False 3 3))" example_backup "''deployment''"
        "example_client (Inr (example_meta False 3 3))" "example_meta True 3 1"
        "example_meta False 3 3"]
  by (simp add: example_handler_def example_client_def example_meta_def example_backup_def)

text \<open>
  Claim C2. Whenever the handler returns a status, the flag available of that status is
  true exactly when the lookup was made and succeeded with a \<open>backupMeta\<close> that is
  available and has equal counters. On every other path that returns a status (the
  backup not found, another lookup error, a \<open>backupMeta\<close> that is not available or has
  unequal counters) the flag is false, whatever it was in the record.
\<close>

theorem stateUnavailableHandler_available_iff:
  assumes "stateUnavailableHandler h backup = Inr status"
  shows "Status_Available status \<longleftrightarrow>
           (\<exists>deployment client statusBackup backupMeta.
              getArangoDeploymentObject h backup = Inr deployment
              \<and> arangoClientFactory h deployment backup = Inr client
              \<and> Status_Backup (Status backup) = Some statusBackup
              \<and> ArangoClient_Get client (ID statusBackup) = Inr backupMeta
              \<and> Available backupMeta
              \<and> NumberOfDBServers backupMeta = NumberOfPiecesPresent backupMeta)"
  using assms
  by (auto simp: stateUnavailableHandler_def wrapUpdateStatus_def updateStatusState_def
      updateStatusAvailable_def updateStatusBackup_def newTemporaryError_def
      newFatalErrorf_def
      split: sum.splits option.splits if_splits)

text \<open>
  The status returned for three pieces of three, available, has the flag set, so a
  verified lookup stands behind it; the status returned after a lookup that timed out
  has the flag cleared, so no such lookup does.
\<close>

theorem stateUnavailableHandler_available_iff_witness:
  "(\<exists>deployment client statusBackup backupMeta.
      getArangoDeploymentObject (example_handler (Inr (example_meta True 3 3)))
        example_backup = Inr deployment
      \<and> arangoClientFactory (example_handler (Inr (example_meta True 3 3)))
          deployment example_backup = Inr client
      \<and> Status_Backup (Status example_backup) = Some statusBackup
      \<and> ArangoClient_Get client (ID statusBackup) = Inr backupMeta
      \<and> Available backupMeta
      \<and> NumberOfDBServers backupMeta = NumberOfPiecesPresent backupMeta)
   \<and> \<not> (\<exists>deployment client statusBackup backupMeta.
      getArangoDeploymentObject (example_handler (Inl (OtherError ''timeout'')))
        example_backup = Inr deployment
      \<and> arangoClientFactory (example_handler (Inl (OtherError ''timeout'')))
          deployment example_backup = Inr client
      \<and> Status_Backup (Status example_backup) = Some statusBackup
      \<and> ArangoClient_Get client (ID statusBackup) = Inr backupMeta
      \<and> Available backupMeta
      \<and> NumberOfDBServers backupMeta = NumberOfPiecesPresent backupMeta)"
proof -
  have ready:
    "stateUnavailableHandler (example_handler (Inr (example_meta True 3 3))) example_backup =
       Inr \<lparr>Status_State = ArangoBackupStateReady, Status_Available = True,
            Status_Backup = Some (example_meta True 3 3)\<rparr>"
    by (simp add: stateUnavailableHandler_def wrapUpdateStatus_def updateStatusState_def
        updateStatusAvailable_def updateStatusBackup_def
        example_handler_def example_client_def example_meta_def example_backup_def)
  have failed:
    "stateUnavailableHandler (example_handler (Inl (OtherError ''timeout''))) example_backup =
       Inr \<lparr>Status_State = ArangoBackupStateUnavailable, Status_Available = False,
            Status_Backup = Some (example_meta True 3 1)\<rparr>"
    by (simp add: stateUnavailableHandler_def wrapUpdateStatus_def updateStatusAvailable_def
        example_handler_def example_client_def example_meta_def example_backup_def)
  from stateUnavailableHandler_available_iff [OF ready]
    stateUnavailableHandler_available_iff [OF failed]
  show ?thesis by simp
qed

text \<open>
  Claim C3. When the deployment and the client are obtained, the record has a backup
  stored and the lookup of that backup fails with a not-found error, the handler returns
  the record's status with the state Deleted and the flag available false; the stored
  snapshot, whatever it holds, is not touched.
\<close>

theorem stateUnavailableHandler_not_found:
  assumes "getArangoDeploymentObject h backup = Inr deployment"
      and "arangoClientFactory h deployment backup = Inr client"
      and "Status_Backup (Status backup) = Some statusBackup"
      and "ArangoClient_Get client (ID statusBackup) = Inl err"
      and "driver_IsNotFound err"
  shows "stateUnavailableHandler h backup =
           Inr ((Status backup)
                 \<lparr>Status_State := ArangoBackupStateDeleted, Status_Available := False\<rparr>)"
  using assms
  by (simp add: stateUnavailableHandler_def wrapUpdateStatus_def updateStatusState_def
      updateStatusAvailable_def)

theorem stateUnavailableHandler_not_found_witness:
  "stateUnavailableHandler (example_handler (Inl (NotFoundError ''backup-1''))) example_backup =
     Inr \<lparr>Status_State = ArangoBackupStateDeleted, Status_Available = False,
          Status_Backup = Some (example_meta True 3 1)\<rparr>"
  using stateUnavailableHandler_not_found
      [of "example_handler (Inl (NotFoundError ''backup-1''))" example_backup
        "''deployment''" "example_client (Inl (NotFoundError ''backup-1''))"
        "example_meta True 3 1" "NotFoundError ''backup-1''"]
  by (simp add: example_handler_def example_client_def example_meta_def example_backup_def)

text \<open>
  Claim C4, as stated: every record in state Unavailable with no backup stored yields a
  fatal error, never a temporary one. It fails where the client cannot be obtained and
  where the deployment cannot be resolved: the handler asks for the deployment and for
  the client before it looks at the record, returns the client factory's failure as a
  temporary error, and returns the failure to resolve the deployment as it is.
\<close>

theorem stateUnavailableHandler_missing_backup_counterexample:
  "Status_State (Status example_backup_noid) = ArangoBackupStateUnavailable
   \<and> Status_Backup (Status example_backup_noid) = None
   \<and> stateUnavailableHandler example_handler_noclient example_backup_noid =
       Inl (TemporaryError (OtherError ''connection refused''))
   \<and> isTemporary (TemporaryError (OtherError ''connection refused''))
   \<and> \<not> isFatal (TemporaryError (OtherError ''connection refused''))
   \<and> stateUnavailableHandler example_handler_nodeployment example_backup_noid =
       Inl (NotFoundError ''deployment'')
   \<and> \<not> isFatal (NotFoundError ''deployment'')"
  by (simp add: stateUnavailableHandler_def newTemporaryError_def
      example_handler_noclient_def example_handler_nodeployment_def example_backup_noid_def)

text \<open>
  Claim C4, amended. For a record with no backup stored: when the deployment is resolved
  and the client is obtained, the handler returns the fatal error
  \<open>missing field .status.backup\<close>, not a temporary error and not a status; when the
  deployment is resolved and the client factory fails, it returns that failure as a
  temporary error; when the deployment cannot be resolved, it returns that error as it
  is.
\<close>

theorem stateUnavailableHandler_missing_backup:
  assumes "Status_Backup (Status backup) = None"
  shows "(getArangoDeploymentObject h backup = Inr deployment
            \<and> arangoClientFactory h deployment backup = Inr client
          \<longrightarrow> stateUnavailableHandler h backup =
                Inl (FatalError ''missing field .status.backup'')
              \<and> isFatal (FatalError ''missing field .status.backup'')
              \<and> \<not> isTemporary (FatalError ''missing field .status.backup''))
         \<and> (getArangoDeploymentObject h backup = Inr deployment
            \<and> arangoClientFactory h deployment backup = Inl err
          \<longrightarrow> stateUnavailableHandler h backup = Inl (TemporaryError err))
         \<and> (getArangoDeploymentObject h backup = Inl err
          \<longrightarrow> stateUnavailableHandler h backup = Inl err)"
  using assms
  by (simp add: stateUnavailableHandler_def newFatalErrorf_def newTemporaryError_def)

text \<open>The three paths, on the record with no backup stored.\<close>

theorem stateUnavailableHandler_missing_backup_witness:
  "stateUnavailableHandler (example_handler (Inr (example_meta True 3 3))) example_backup_noid =
     Inl (FatalError ''missing field .status.backup'')
   \<and> stateUnavailableHandler example_handler_noclient example_backup_noid =
     Inl (TemporaryError (OtherError ''connection refused''))
   \<and> stateUnavailableHandler example_handler_nodeployment example_backup_noid =
     Inl (NotFoundError ''deployment'')"
proof -
  have none: "Status_Backup (Status example_backup_noid) = None"
    by (simp add: example_backup_noid_def)
  from stateUnavailableHandler_missing_backup
         [OF none, of "example_handler (Inr (example_meta True 3 3))" "''deployment''"
           "example_client (Inr (example_meta True 3 3))"]
  have fatal:
    "stateUnavailableHandler (example_handler (Inr (example_meta True 3 3)))
       example_backup_noid = Inl (FatalError ''missing field .status.backup'')"
    by (simp add: example_handler_def)
  from stateUnavailableHandler_missing_backup
         [OF none, of example_handler_noclient "''deployment''" _
           "OtherError ''connection refused''"]
  have temporary:
    "stateUnavailableHandler example_handler_noclient example_backup_noid =
       Inl (TemporaryError (OtherError ''connection refused''))"
    by (simp add: example_handler_noclient_def)
  from stateUnavailableHandler_missing_backup
         [OF none, of example_handler_nodeployment _ _ "NotFoundError ''deployment''"]
  have plain:
    "stateUnavailableHandler example_handler_nodeployment example_backup_noid =
       Inl (NotFoundError ''deployment'')"
    by (simp add: example_handler_nodeployment_def)
  from fatal temporary plain show ?thesis by simp
qed

text \<open>
  Claim C5. When the deployment and the client are obtained, the record has a backup
  stored and the lookup of that backup fails with an error that is not a not-found
  error, the handler returns the record's status with the flag available false and every
  other field as it was: the state (Unavailable, for a record in that state) and the
  stored snapshot are those of the record.
\<close>

theorem stateUnavailableHandler_lookup_failed:
  assumes "getArangoDeploymentObject h backup = Inr deployment"
      and "arangoClientFactory h deployment backup = Inr client"
      and "Status_Backup (Status backup) = Some statusBackup"
      and "ArangoClient_Get client (ID statusBackup) = Inl err"
      and "\<not> driver_IsNotFound err"
  shows "stateUnavailableHandler h backup = Inr ((Status backup)\<lparr>Status_Available := False\<rparr>)"
  using assms
  by (simp add: stateUnavailableHandler_def wrapUpdateStatus_def updateStatusAvailable_def)

theorem stateUnavailableHandler_lookup_failed_witness:
  "stateUnavailableHandler (example_handler (Inl (OtherError ''timeout''))) example_backup =
     Inr \<lparr>Status_State = ArangoBackupStateUnavailable, Status_Available = False,
          Status_Backup = Some (example_meta True 3 1)\<rparr>"
  using stateUnavailableHandler_lookup_failed
      [of "example_handler (Inl (OtherError ''timeout''))" example_backup
        "''deployment''" "example_client (Inl (OtherError ''timeout''))"
        "example_meta True 3 1" "OtherError ''timeout''"]
  by (simp add: example_handler_def example_client_def example_meta_def example_backup_def)


section \<open>The ServiceMonitor of a deployment: properties\<close>

subsection \<open>The paths of EnsureServiceMonitor\<close>

lemma EnsureMonitoringClient_cached:
  assumes "EnsureMonitoringClient e r = (Inr mClient, r')"
  shows "EnsureMonitoringClient e r' = (Inr mClient, r')" and "context r' = context r"
  using assms
  by (auto simp: EnsureMonitoringClient_def split: option.splits sum.splits)

lemma EnsureServiceMonitor_no_client:
  assumes "EnsureMonitoringClient e r = (Inl err, r')"
  shows "EnsureServiceMonitor e r = (Some (maskAny e err), r', [])"
  using assms by (simp add: EnsureServiceMonitor_def Let_def)

lemma EnsureServiceMonitor_get_failed:
  assumes "EnsureMonitoringClient e r = (Inr mClient, r')"
      and "ns = GetNamespace (GetAPIObject (context r))"
      and "name = CreateExporterClientServiceName e (GetName (GetAPIObject (context r)))"
      and "ServiceMonitors_Get mClient ns name = Inl err"
      and "\<not> k8sutil_IsNotFound err"
  shows "EnsureServiceMonitor e r = (Some (maskAny e err), r', [GetCall ns name])"
  using assms by (simp add: EnsureServiceMonitor_def Let_def)

lemma EnsureServiceMonitor_absent_unwanted:
  assumes "EnsureMonitoringClient e r = (Inr mClient, r')"
      and "ns = GetNamespace (GetAPIObject (context r))"
      and "name = CreateExporterClientServiceName e (GetName (GetAPIObject (context r)))"
      and "ServiceMonitors_Get mClient ns name = Inl err"
      and "k8sutil_IsNotFound err"
      and "\<not> Metrics_IsEnabled (GetSpec (context r))"
  shows "EnsureServiceMonitor e r = (None, r', [GetCall ns name])"
  using assms by (simp add: EnsureServiceMonitor_def Let_def)

lemma EnsureServiceMonitor_absent_wanted:
  assumes "EnsureMonitoringClient e r = (Inr mClient, r')"
      and "ns = GetNamespace (GetAPIObject (context r))"
      and "name = CreateExporterClientServiceName e (GetName (GetAPIObject (context r)))"
      and "ServiceMonitors_Get mClient ns name = Inl err"
      and "k8sutil_IsNotFound err"
      and "Metrics_IsEnabled (GetSpec (context r))"
  shows "EnsureServiceMonitor e r =
           (case ServiceMonitors_Create mClient ns (newServiceMonitor e r') of
              Inl err \<Rightarrow> Some (maskAny e err)
            | Inr created \<Rightarrow> None,
            r', [GetCall ns name, CreateCall ns (newServiceMonitor e r')])"
  using assms by (simp add: EnsureServiceMonitor_def Let_def split: sum.splits)

lemma EnsureServiceMonitor_present_wanted:
  assumes "EnsureMonitoringClient e r = (Inr mClient, r')"
      and "ns = GetNamespace (GetAPIObject (context r))"
      and "name = CreateExporterClientServiceName e (GetName (GetAPIObject (context r)))"
      and "ServiceMonitors_Get mClient ns name = Inr found"
      and "Metrics_IsEnabled (GetSpec (context r))"
  shows "EnsureServiceMonitor e r = (None, r', [GetCall ns name])"
  using assms by (simp add: EnsureServiceMonitor_def Let_def)

lemma EnsureServiceMonitor_present_unwanted:
  assumes "EnsureMonitoringClient e r = (Inr mClient, r')"
      and "ns = GetNamespace (GetAPIObject (context r))"
      and "name = CreateExporterClientServiceName e (GetName (GetAPIObject (context r)))"
      and "ServiceMonitors_Get mClient ns name = Inr found"
      and "\<not> Metrics_IsEnabled (GetSpec (context r))"
  shows "EnsureServiceMonitor e r =
           (map_option (maskAny e) (ServiceMonitors_Delete mClient ns name),
            r', [GetCall ns name, DeleteCall ns name])"
  using assms by (simp add: EnsureServiceMonitor_def Let_def split: option.splits)

subsection \<open>The concrete inputs, evaluated\<close>

lemma example_client_built:
  "EnsureMonitoringClient (example_env mClient cert) (example_resources wantMetrics secure) =
     (Inr mClient, (example_resources wantMetrics secure)\<lparr>monitoringClient := Some mClient\<rparr>)"
  by (simp add: EnsureMonitoringClient_def example_env_def example_resources_def)

lemma example_ns:
  "''default'' = GetNamespace (GetAPIObject (context (example_resources wantMetrics secure)))"
  by (simp add: example_resources_def)

lemma example_name:
  "''db-exporter'' =
     CreateExporterClientServiceName (example_env mClient cert)
       (GetName (GetAPIObject (context (example_resources wantMetrics secure))))"
  by (simp add: example_env_def example_resources_def)

lemma example_secret:
  "GetCASecret (example_env mClient cert)
     (Context_GetNamespace (context (example_resources wantMetrics secure)))
     (TLS_GetCASecretName (GetSpec (context (example_resources wantMetrics secure)))) = cert"
  by (simp add: example_env_def)

lemma example_delete:
  "EnsureServiceMonitor
     (example_env (example_monitoring_client (Inr found) createErr deleteErr) cert)
     (example_resources False secure) =
   (deleteErr,
    (example_resources False secure)
      \<lparr>monitoringClient := Some (example_monitoring_client (Inr found) createErr deleteErr)\<rparr>,
    [GetCall ''default'' ''db-exporter'', DeleteCall ''default'' ''db-exporter''])"
proof -
  let ?c = "example_monitoring_client (Inr found) createErr deleteErr"
  have present: "ServiceMonitors_Get ?c ''default'' ''db-exporter'' = Inr found"
    by (simp add: example_monitoring_client_def)
  have unwanted: "\<not> Metrics_IsEnabled (GetSpec (context (example_resources False secure)))"
    by (simp add: example_resources_def)
  have delete: "ServiceMonitors_Delete ?c ''default'' ''db-exporter'' = deleteErr"
    by (simp add: example_monitoring_client_def)
  have masked: "map_option (maskAny (example_env ?c cert)) deleteErr = deleteErr"
    by (cases deleteErr) (simp_all add: example_env_def)
  from EnsureServiceMonitor_present_unwanted
         [OF example_client_built example_ns example_name present unwanted]
  show ?thesis by (simp add: delete masked)
qed


lemma example_spec_client_built:
  "EnsureMonitoringClient (example_env_spec mClient cert)
     (example_resources wantMetrics secure) =
     (Inr mClient, (example_resources wantMetrics secure)\<lparr>monitoringClient := Some mClient\<rparr>)"
  by (simp add: EnsureMonitoringClient_def example_env_spec_def example_env_def
      example_resources_def)

lemma example_spec_name:
  "''db-exporter'' =
     CreateExporterClientServiceName (example_env_spec mClient cert)
       (GetName (GetAPIObject (context (example_resources wantMetrics secure))))"
  by (simp add: example_env_spec_def example_env_def example_resources_def)

lemma example_spec_maskAny: "maskAny (example_env_spec mClient cert) = maskAny_spec"
  by (simp add: example_env_spec_def)


subsection \<open>Idempotence\<close>

text \<open>
  Claim C6. With a client at hand, when the cluster already matches the intent (Get
  reports the ServiceMonitor not found and metrics are not wanted, or Get finds it and
  metrics are wanted), EnsureServiceMonitor returns success having made the Get call and
  nothing else, and so does a second invocation on the Resources the first one left:
  neither makes a Create or a Delete call.
\<close>

theorem EnsureServiceMonitor_idempotent:
  assumes client: "EnsureMonitoringClient e r = (Inr mClient, r')"
      and ns: "ns = GetNamespace (GetAPIObject (context r))"
      and name: "name = CreateExporterClientServiceName e (GetName (GetAPIObject (context r)))"
      and matches:
        "(\<exists>err. ServiceMonitors_Get mClient ns name = Inl err \<and> k8sutil_IsNotFound err
                \<and> \<not> Metrics_IsEnabled (GetSpec (context r)))
         \<or> (\<exists>found. ServiceMonitors_Get mClient ns name = Inr found
                \<and> Metrics_IsEnabled (GetSpec (context r)))"
  shows "EnsureServiceMonitor e r = (None, r', [GetCall ns name])
         \<and> EnsureServiceMonitor e r' = (None, r', [GetCall ns name])
         \<and> filter isMutating (snd (snd (EnsureServiceMonitor e r))) = []
         \<and> filter isMutating (snd (snd (EnsureServiceMonitor e r'))) = []"
proof -
  have again: "EnsureMonitoringClient e r' = (Inr mClient, r')"
    and same: "context r' = context r"
    using EnsureMonitoringClient_cached [OF client] by simp_all
  have ns': "ns = GetNamespace (GetAPIObject (context r'))"
    and name': "name = CreateExporterClientServiceName e (GetName (GetAPIObject (context r')))"
    using ns name same by simp_all
  from matches have "EnsureServiceMonitor e r = (None, r', [GetCall ns name])
      \<and> EnsureServiceMonitor e r' = (None, r', [GetCall ns name])"
  proof
    assume "\<exists>err. ServiceMonitors_Get mClient ns name = Inl err \<and> k8sutil_IsNotFound err
                \<and> \<not> Metrics_IsEnabled (GetSpec (context r))"
    then obtain err where g: "ServiceMonitors_Get mClient ns name = Inl err"
      and nf: "k8sutil_IsNotFound err" and off: "\<not> Metrics_IsEnabled (GetSpec (context r))"
      by blast
    from off same have off': "\<not> Metrics_IsEnabled (GetSpec (context r'))" by simp
    show ?thesis
      using EnsureServiceMonitor_absent_unwanted [OF client ns name g nf off]
        EnsureServiceMonitor_absent_unwanted [OF again ns' name' g nf off']
      by simp
  next
    assume "\<exists>found. ServiceMonitors_Get mClient ns name = Inr found
                \<and> Metrics_IsEnabled (GetSpec (context r))"
    then obtain found where g: "ServiceMonitors_Get mClient ns name = Inr found"
      and on: "Metrics_IsEnabled (GetSpec (context r))"
      by blast
    from on same have on': "Metrics_IsEnabled (GetSpec (context r'))" by simp
    show ?thesis
      using EnsureServiceMonitor_present_wanted [OF client ns name g on]
        EnsureServiceMonitor_present_wanted [OF again ns' name' g on']
      by simp
  qed
  then show ?thesis by simp
qed

text \<open>Absent and not wanted; present and wanted.\<close>

theorem EnsureServiceMonitor_idempotent_witness:
  "EnsureServiceMonitor
     (example_env (example_monitoring_client (Inl (NotFoundError ''db-exporter'')) None None)
        (Inr ''ca.crt''))
     (example_resources False False) =
   (None,
    (example_resources False False)
      \<lparr>monitoringClient :=
         Some (example_monitoring_client (Inl (NotFoundError ''db-exporter'')) None None)\<rparr>,
    [GetCall ''default'' ''db-exporter''])
   \<and> EnsureServiceMonitor
     (example_env (example_monitoring_client (Inr example_monitor) None None) (Inr ''ca.crt''))
     (example_resources True False) =
   (None,
    (example_resources True False)
      \<lparr>monitoringClient :=
         Some (example_monitoring_client (Inr example_monitor) None None)\<rparr>,
    [GetCall ''default'' ''db-exporter''])"
proof -
  let ?absent = "example_monitoring_client (Inl (NotFoundError ''db-exporter'')) None None"
  let ?present = "example_monitoring_client (Inr example_monitor) None None"
  have absent:
    "(\<exists>err. ServiceMonitors_Get ?absent ''default'' ''db-exporter'' = Inl err
            \<and> k8sutil_IsNotFound err
            \<and> \<not> Metrics_IsEnabled (GetSpec (context (example_resources False False))))
     \<or> (\<exists>found. ServiceMonitors_Get ?absent ''default'' ''db-exporter'' = Inr found
            \<and> Metrics_IsEnabled (GetSpec (context (example_resources False False))))"
    by (simp add: example_monitoring_client_def example_resources_def)
  have present:
    "(\<exists>err. ServiceMonitors_Get ?present ''default'' ''db-exporter'' = Inl err
            \<and> k8sutil_IsNotFound err
            \<and> \<not> Metrics_IsEnabled (GetSpec (context (example_resources True False))))
     \<or> (\<exists>found. ServiceMonitors_Get ?present ''default'' ''db-exporter'' = Inr found
            \<and> Metrics_IsEnabled (GetSpec (context (example_resources True False))))"
    by (simp add: example_monitoring_client_def example_resources_def)
  from EnsureServiceMonitor_idempotent [OF example_client_built example_ns example_name absent]
    EnsureServiceMonitor_idempotent [OF example_client_built example_ns example_name present]
  show ?thesis by blast
qed

subsection \<open>The endpoint\<close>

text \<open>
  Claim C7. When the deployment is secure and the CA certificate is read, the endpoint
  has scheme https and a TLS configuration that names the certificate and verifies
  (InsecureSkipVerify false); when it is secure and reading the certificate fails, for
  whatever reason, the endpoint is still built, with scheme https and a TLS
  configuration that does not verify (InsecureSkipVerify true); when it is not secure,
  the endpoint has scheme http and no TLS configuration. In every case the port is
  \<open>exporter\<close> and the interval \<open>10s\<close>.
\<close>

theorem makeEndpoint_cases:
  "(isSecure
      \<and> GetCASecret e (Context_GetNamespace (context r))
            (TLS_GetCASecretName (GetSpec (context r))) = Inr cert
    \<longrightarrow> makeEndpoint e r isSecure =
          \<lparr>Port = ''exporter'', Interval = ''10s'', Scheme = ''https'',
           TLSConfig = Some \<lparr>CAFile = cert, InsecureSkipVerify = False\<rparr>\<rparr>)
   \<and> (isSecure
      \<and> GetCASecret e (Context_GetNamespace (context r))
            (TLS_GetCASecretName (GetSpec (context r))) = Inl err
    \<longrightarrow> makeEndpoint e r isSecure =
          \<lparr>Port = ''exporter'', Interval = ''10s'', Scheme = ''https'',
           TLSConfig = Some \<lparr>CAFile = '''', InsecureSkipVerify = True\<rparr>\<rparr>)
   \<and> (\<not> isSecure
    \<longrightarrow> makeEndpoint e r isSecure =
          \<lparr>Port = ''exporter'', Interval = ''10s'', Scheme = ''http'', TLSConfig = None\<rparr>)
   \<and> Port (makeEndpoint e r isSecure) = ''exporter''
   \<and> Interval (makeEndpoint e r isSecure) = ''10s''"
  by (simp add: makeEndpoint_def Let_def split: sum.splits)

theorem makeEndpoint_cases_witness:
  "makeEndpoint (example_env (example_monitoring_client (Inr example_monitor) None None)
       (Inr ''ca.crt'')) (example_resources True True) True =
     \<lparr>Port = ''exporter'', Interval = ''10s'', Scheme = ''https'',
      TLSConfig = Some \<lparr>CAFile = ''ca.crt'', InsecureSkipVerify = False\<rparr>\<rparr>
   \<and> makeEndpoint (example_env (example_monitoring_client (Inr example_monitor) None None)
       (Inl (NotFoundError ''db-ca''))) (example_resources True True) True =
     \<lparr>Port = ''exporter'', Interval = ''10s'', Scheme = ''https'',
      TLSConfig = Some \<lparr>CAFile = '''', InsecureSkipVerify = True\<rparr>\<rparr>
   \<and> makeEndpoint (example_env (example_monitoring_client (Inr example_monitor) None None)
       (Inr ''ca.crt'')) (example_resources True False) False =
     \<lparr>Port = ''exporter'', Interval = ''10s'', Scheme = ''http'', TLSConfig = None\<rparr>"
  using
    makeEndpoint_cases
      [of True "example_env (example_monitoring_client (Inr example_monitor) None None)
         (Inr ''ca.crt'')" "example_resources True True" "''ca.crt''"]
    makeEndpoint_cases
      [of True "example_env (example_monitoring_client (Inr example_monitor) None None)
         (Inl (NotFoundError ''db-ca''))" "example_resources True True" _
        "NotFoundError ''db-ca''"]
    makeEndpoint_cases
      [of False "example_env (example_monitoring_client (Inr example_monitor) None None)
         (Inr ''ca.crt'')" "example_resources True False"]
  by (simp add: example_secret)

subsection \<open>Failures of Create and Delete\<close>

text \<open>
  Claim C8. When Get reports the ServiceMonitor not found, metrics are wanted and Create
  fails with \<open>err\<close>, EnsureServiceMonitor returns \<^verbatim>\<open>maskAny(err)\<close> for that very error,
  after exactly the two calls Get and Create. With the classification of the spec for
  \<^verbatim>\<open>maskAny\<close>, the error returned is Fatal when \<open>err\<close> is a validation or conflict
  failure, and Temporary otherwise.
\<close>

theorem EnsureServiceMonitor_create_failed:
  assumes "EnsureMonitoringClient e r = (Inr mClient, r')"
      and "ns = GetNamespace (GetAPIObject (context r))"
      and "name = CreateExporterClientServiceName e (GetName (GetAPIObject (context r)))"
      and "ServiceMonitors_Get mClient ns name = Inl notFound"
      and "k8sutil_IsNotFound notFound"
      and "Metrics_IsEnabled (GetSpec (context r))"
      and "ServiceMonitors_Create mClient ns (newServiceMonitor e r') = Inl err"
  shows "EnsureServiceMonitor e r =
           (Some (maskAny e err), r',
            [GetCall ns name, CreateCall ns (newServiceMonitor e r')])
         \<and> (maskAny e = maskAny_spec \<longrightarrow>
               (\<exists>surfaced. fst (EnsureServiceMonitor e r) = Some surfaced
                  \<and> (isFatal surfaced \<longleftrightarrow> isValidationOrConflict err)
                  \<and> (isTemporary surfaced \<longleftrightarrow> \<not> isValidationOrConflict err)))"
proof -
  have run: "EnsureServiceMonitor e r =
      (Some (maskAny e err), r', [GetCall ns name, CreateCall ns (newServiceMonitor e r')])"
    using EnsureServiceMonitor_absent_wanted [OF assms(1-6)] assms(7) by simp
  have kind: "(isFatal (maskAny_spec err) \<longleftrightarrow> isValidationOrConflict err)
      \<and> (isTemporary (maskAny_spec err) \<longleftrightarrow> \<not> isValidationOrConflict err)"
    by (cases err) simp_all
  from run kind show ?thesis by simp
qed

text \<open>A conflict on Create surfaces as Fatal, a timeout as Temporary.\<close>

theorem EnsureServiceMonitor_create_failed_witness:
  "fst (EnsureServiceMonitor
     (example_env_spec
        (example_monitoring_client (Inl (NotFoundError ''db-exporter''))
           (Some (ConflictError ''db-exporter'')) None)
        (Inr ''ca.crt''))
     (example_resources True False)) = Some (FatalError ''db-exporter'')
   \<and> fst (EnsureServiceMonitor
     (example_env_spec
        (example_monitoring_client (Inl (NotFoundError ''db-exporter''))
           (Some (OtherError ''timeout'')) None)
        (Inr ''ca.crt''))
     (example_resources True False)) = Some (TemporaryError (OtherError ''timeout''))"
proof -
  have absent: "ServiceMonitors_Get
      (example_monitoring_client (Inl (NotFoundError ''db-exporter'')) (Some failure) None)
      ''default'' ''db-exporter'' = Inl (NotFoundError ''db-exporter'')" for failure
    by (simp add: example_monitoring_client_def)
  have wanted: "Metrics_IsEnabled (GetSpec (context (example_resources True False)))"
    by (simp add: example_resources_def)
  have nf: "k8sutil_IsNotFound (NotFoundError ''db-exporter'')" by simp
  have create: "ServiceMonitors_Create
      (example_monitoring_client (Inl (NotFoundError ''db-exporter'')) (Some failure) None)
      ''default'' smon = Inl failure" for failure smon
    by (simp add: example_monitoring_client_def)
  from EnsureServiceMonitor_create_failed
         [OF example_spec_client_built [of _ "Inr ''ca.crt''" True False]
            example_ns [of True False]
            example_spec_name [of _ "Inr ''ca.crt''" True False]
            absent [of "ConflictError ''db-exporter''"] nf wanted
            create [of "ConflictError ''db-exporter''"]]
  have conflict: "fst (EnsureServiceMonitor
     (example_env_spec
        (example_monitoring_client (Inl (NotFoundError ''db-exporter''))
           (Some (ConflictError ''db-exporter'')) None)
        (Inr ''ca.crt''))
     (example_resources True False)) = Some (FatalError ''db-exporter'')"
    by (simp add: example_spec_maskAny)
  from EnsureServiceMonitor_create_failed
         [OF example_spec_client_built [of _ "Inr ''ca.crt''" True False]
            example_ns [of True False]
            example_spec_name [of _ "Inr ''ca.crt''" True False]
            absent [of "OtherError ''timeout''"] nf wanted
            create [of "OtherError ''timeout''"]]
  have timeout: "fst (EnsureServiceMonitor
     (example_env_spec
        (example_monitoring_client (Inl (NotFoundError ''db-exporter''))
           (Some (OtherError ''timeout'')) None)
        (Inr ''ca.crt''))
     (example_resources True False)) = Some (TemporaryError (OtherError ''timeout''))"
    by (simp add: example_spec_maskAny)
  from conflict timeout show ?thesis by simp
qed




subsection \<open>At most one mutating call\<close>

text \<open>
  Claim C10. Whatever the environment answers, the calls of one invocation hold at most
  one mutating call, and never both a Create and a Delete. A Create is made only when a
  client was obtained, Get reported the ServiceMonitor not found and metrics are wanted,
  and then the calls are exactly Get and Create; a Delete is made only when a client
  was obtained, Get found the ServiceMonitor and metrics are not wanted, and then the
  calls are exactly Get and Delete.
\<close>

theorem EnsureServiceMonitor_at_most_one_mutation:
  assumes run: "EnsureServiceMonitor e r = (result, r', calls)"
      and ns: "ns = GetNamespace (GetAPIObject (context r))"
      and name: "name = CreateExporterClientServiceName e (GetName (GetAPIObject (context r)))"
  shows "length (filter isMutating calls) \<le> 1
         \<and> \<not> (list_ex isCreate calls \<and> list_ex isDelete calls)
         \<and> (list_ex isCreate calls \<longrightarrow>
               calls = [GetCall ns name, CreateCall ns (newServiceMonitor e r')]
               \<and> Metrics_IsEnabled (GetSpec (context r))
               \<and> (\<exists>mClient err. EnsureMonitoringClient e r = (Inr mClient, r')
                     \<and> ServiceMonitors_Get mClient ns name = Inl err
                     \<and> k8sutil_IsNotFound err))
         \<and> (list_ex isDelete calls \<longrightarrow>
               calls = [GetCall ns name, DeleteCall ns name]
               \<and> \<not> Metrics_IsEnabled (GetSpec (context r))
               \<and> (\<exists>mClient found. EnsureMonitoringClient e r = (Inr mClient, r')
                     \<and> ServiceMonitors_Get mClient ns name = Inr found))"
proof (cases "EnsureMonitoringClient e r")
  case (Pair built r1)
  show ?thesis
  proof (cases built)
    case (Inl err)
    with Pair have "EnsureMonitoringClient e r = (Inl err, r1)" by simp
    from EnsureServiceMonitor_no_client [OF this] run show ?thesis by simp
  next
    case (Inr mClient)
    with Pair have client: "EnsureMonitoringClient e r = (Inr mClient, r1)" by simp
    show ?thesis
    proof (cases "ServiceMonitors_Get mClient ns name")
      case (Inl err)
      note get = this
      show ?thesis
      proof (cases "k8sutil_IsNotFound err")
        case False
        from EnsureServiceMonitor_get_failed [OF client ns name get False] run
        show ?thesis by simp
      next
        case True
        show ?thesis
        proof (cases "Metrics_IsEnabled (GetSpec (context r))")
          case False
          from EnsureServiceMonitor_absent_unwanted [OF client ns name get True False] run
          show ?thesis by simp
        next
          case wanted: True
          from EnsureServiceMonitor_absent_wanted [OF client ns name get True wanted] run
          have "r' = r1" and "calls = [GetCall ns name, CreateCall ns (newServiceMonitor e r1)]"
            by simp_all
          with client get True wanted show ?thesis by simp
        qed
      qed
    next
      case (Inr found)
      note get = this
      show ?thesis
      proof (cases "Metrics_IsEnabled (GetSpec (context r))")
        case True
        from EnsureServiceMonitor_present_wanted [OF client ns name get True] run
        show ?thesis by simp
      next
        case False
        from EnsureServiceMonitor_present_unwanted [OF client ns name get False] run
        have "r' = r1" and "calls = [GetCall ns name, DeleteCall ns name]"
          by simp_all
        with client get False show ?thesis by simp
      qed
    qed
  qed
qed

text \<open>An invocation that deletes: one mutating call, no Create.\<close>

theorem EnsureServiceMonitor_at_most_one_mutation_witness:
  "length (filter isMutating
     [GetCall ''default'' ''db-exporter'', DeleteCall ''default'' ''db-exporter'']) \<le> 1
   \<and> \<not> list_ex isCreate
         [GetCall ''default'' ''db-exporter'', DeleteCall ''default'' ''db-exporter'']
   \<and> \<not> Metrics_IsEnabled (GetSpec (context (example_resources False False)))
   \<and> (\<exists>mClient found.
         EnsureMonitoringClient
           (example_env (example_monitoring_client (Inr example_monitor) None None)
              (Inr ''ca.crt''))
           (example_resources False False) =
         (Inr mClient,
          (example_resources False False)
            \<lparr>monitoringClient :=
               Some (example_monitoring_client (Inr example_monitor) None None)\<rparr>)
         \<and> ServiceMonitors_Get mClient ''default'' ''db-exporter'' = Inr found)"
  using EnsureServiceMonitor_at_most_one_mutation
      [OF example_delete [of example_monitor None None "Inr ''ca.crt''" False]
        example_ns [of False False]
        example_name [of "example_monitoring_client (Inr example_monitor) None None"
          "Inr ''ca.crt''" False False]]
  by simp

end
